theory Spec2Isabelle
  imports Complex_Main
begin

section \<open>The template-map overlay of src/templates/template\_map.cpp\<close>

text \<open>
  The theory embeds \<^verbatim>\<open>TemplateMap\<close>: loading a map file as a template
  (\<^verbatim>\<open>loadTemplateFileImpl\<close>), unloading it, its extent, the scaling computed by
  \<^verbatim>\<open>drawTemplate\<close> and the pass points of \<^verbatim>\<open>calculateTransformation\<close>.

  Conventions.
  \<^item> A C++ \<^verbatim>\<open>double\<close> is read as a \<^typ>\<open>real\<close>: the theorems are about which
    formula the code applies, never about rounding.
  \<^item> A \<^verbatim>\<open>std::unique_ptr<Map>\<close> is a \<^typ>\<open>'a option\<close>; dereferencing the null
    pointer, reading the last element of an empty list, and an exception that leaves a
    function are error results.
  \<^item> Classes whose code is in other files (\<^verbatim>\<open>Map\<close>, \<^verbatim>\<open>Importer\<close>,
    \<^verbatim>\<open>Georeferencing\<close>, \<^verbatim>\<open>Util\<close>) appear with the members that
    template\_map.cpp uses; their functions are parameters of the definitions here.
\<close>

subsection \<open>Data\<close>

type_synonym MapCoordF = "real \<times> real"

datatype QRectF = QRectF (rect_x: real) (rect_y: real) (rect_width: real) (rect_height: real)

text \<open>\<^verbatim>\<open>QRectF()\<close>, the default-constructed rectangle, and Qt's \<^verbatim>\<open>QRectF::isEmpty\<close>.\<close>

definition QRectF_default :: QRectF where
  "QRectF_default = QRectF 0 0 0 0"

definition isEmpty :: "QRectF \<Rightarrow> bool" where
  "isEmpty r = (rect_width r \<le> 0 \<or> rect_height r \<le> 0)"

record Georeferencing =
  getMapRefPoint :: MapCoordF

text \<open>
  A \<^verbatim>\<open>Map\<close>: its two collections of templates, its georeferencing and the rest of the
  document. The templates behind \<^verbatim>\<open>getNumTemplates\<close> and \<^verbatim>\<open>getTemplate\<close> are the
  open ones; the closed templates are behind \<^verbatim>\<open>getNumClosedTemplates\<close> and
  \<^verbatim>\<open>getClosedTemplate\<close> (both collections are walked in gui/map/map\_dialog\_stretch.cpp,
  lines 89 to 92). The type of a template and of the remaining content are parameters, so
  nothing defined below can look inside a template or change the content.
\<close>

record ('t, 'c) Map =
  templates :: "'t list"
  closed_templates :: "'t list"
  getGeoreferencing :: Georeferencing
  content :: 'c

definition getNumTemplates :: "('t, 'c) Map \<Rightarrow> int" where
  "getNumTemplates m = int (length (templates m))"

definition getNumClosedTemplates :: "('t, 'c) Map \<Rightarrow> int" where
  "getNumClosedTemplates m = int (length (closed_templates m))"

text \<open>
  Modelled from the spec: \<^verbatim>\<open>Map::deleteTemplate(int pos)\<close> is defined in core/map.cpp,
  which is not among the sources. It removes the template at index \<open>pos\<close> from the map's list
  of open templates, the list that \<^verbatim>\<open>getNumTemplates\<close> counts, and leaves the closed
  templates alone; the loop of \<^verbatim>\<open>loadTemplateFileImpl\<close> only calls it with an index in
  range.
\<close>

definition deleteTemplate :: "int \<Rightarrow> ('t, 'c) Map \<Rightarrow> ('t, 'c) Map" where
  "deleteTemplate pos m =
     m\<lparr>templates := take (nat pos) (templates m) @ drop (Suc (nat pos)) (templates m)\<rparr>"

text \<open>
  The process-wide state: the static member \<^verbatim>\<open>TemplateMap::locked_maps\<close>. The field
  \<open>importer_calls\<close> is not program state: it records the path of every \<^verbatim>\<open>makeImporter\<close>
  and \<^verbatim>\<open>doImport\<close> call made by \<^verbatim>\<open>loadTemplateFileImpl\<close>, so that "the importer was
  not invoked" can be stated.
\<close>

datatype importer_call = MakeImporter string | DoImport string

record World =
  locked_maps :: "string list"
  importer_calls :: "importer_call list"

text \<open>
  The ways a function of the file ends without returning. An exception thrown by
  \<^verbatim>\<open>doImport\<close> is not caught in this file: it leaves \<^verbatim>\<open>loadTemplateFileImpl\<close>, and
  the error carries the process-wide state at that moment.
\<close>

datatype error =
    BackOnEmptyList      \<comment> \<open>\<^verbatim>\<open>warnings().back()\<close> on an empty list: a read out of bounds\<close>
  | NullMapDereference   \<comment> \<open>\<^verbatim>\<open>template_map->\<close> or \<^verbatim>\<open>*template_map\<close> on the null pointer\<close>
  | UncaughtException World  \<comment> \<open>an exception out of \<^verbatim>\<open>importer->doImport()\<close>\<close>

text \<open>
  An importer, as far as \<^verbatim>\<open>loadTemplateFileImpl\<close> sees it: \<^verbatim>\<open>doImport()\<close> runs in
  the current process-wide state (it may load the templates of the imported map, which calls
  \<^verbatim>\<open>loadTemplateFileImpl\<close> again). Either it returns: it has filled the map it was
  created for, gives a flag and leaves its list of warnings; or it throws an exception.
\<close>

record ('t, 'c) ImportResult =
  import_ok :: bool
  imported_map :: "('t, 'c) Map"
  warnings :: "string list"

datatype ('t, 'c) ImportOutcome = Returned "('t, 'c) ImportResult" | Thrown

type_synonym ('t, 'c) Importer = "World \<Rightarrow> ('t, 'c) ImportOutcome \<times> World"

text \<open>
  The \<^verbatim>\<open>TemplateMap\<close> object. \<open>'x\<close> is \<^verbatim>\<open>TemplateTransform\<close>, declared in
  templates/template.h.
\<close>

record ('t, 'c, 'x) TemplateMap =
  template_path :: string
  template_map :: "('t, 'c) Map option"
  error_string :: string
  transform :: 'x
  is_georeferenced :: bool

subsection \<open>loadTemplateFileImpl\<close>

text \<open>\<^verbatim>\<open>tr\<close> with no translation catalogue installed returns its argument.\<close>

definition tr :: "string \<Rightarrow> string" where
  "tr s = s"

definition setErrorString ::
  "string \<Rightarrow> ('t, 'c, 'x) TemplateMap \<Rightarrow> ('t, 'c, 'x) TemplateMap" where
  "setErrorString s t = t\<lparr>error_string := s\<rparr>"

text \<open>
  The loop \<^verbatim>\<open>for (int i = getNumTemplates()-1; i >= 0; i--) deleteTemplate(i);\<close>
\<close>

function delete_templates_loop :: "int \<Rightarrow> ('t, 'c) Map \<Rightarrow> ('t, 'c) Map" where
  "delete_templates_loop i m =
     (if i \<ge> 0 then delete_templates_loop (i - 1) (deleteTemplate i m) else m)"
  by pat_completeness auto
termination
  by (relation "measure (\<lambda>(i, m). nat (i + 1))") auto

declare delete_templates_loop.simps [simp del]

text \<open>
  \<^verbatim>\<open>importer && importer->doImport()\<close>: the import runs only when an importer exists.
  The result is the outcome of the call, \<open>None\<close> for the null importer.
\<close>

definition run_import ::
  "string \<Rightarrow> ('t, 'c) Importer option \<Rightarrow> World \<Rightarrow> ('t, 'c) ImportOutcome option \<times> World" where
  "run_import path importer w =
     (case importer of
        None \<Rightarrow> (None, w)
      | Some doImport \<Rightarrow>
          (let (r, w') = doImport (w\<lparr>importer_calls := importer_calls w @ [DoImport path]\<rparr>)
           in (Some r, w')))"

text \<open>
  Lines 98 to 100 are three plain statements: when \<^verbatim>\<open>doImport\<close> throws, the exception
  leaves the function at line 99 and \<^verbatim>\<open>locked_maps.removeAll\<close> at line 100 is not
  reached (the source notes "todo: Convert to RAII" at line 98). After a call that
  returned, \<open>ret\<close> is the importer's state, \<open>None\<close> for the null importer;
  \<open>new_template_valid\<close> is false for the null importer, so the case \<open>None\<close> under
  \<open>new_template_valid\<close> is never taken.
\<close>

definition loadTemplateFileImpl ::
  "(string \<Rightarrow> ('t, 'c) Importer option) \<Rightarrow> bool \<Rightarrow> World \<times> ('t, 'c, 'x) TemplateMap
     \<Rightarrow> error + (bool \<times> World \<times> ('t, 'c, 'x) TemplateMap)" where
  "loadTemplateFileImpl makeImporter configuring st =
     (let w = fst st; t = snd st; path = template_path t in
      if path \<in> set (locked_maps w) then Inr (True, w, t)
      else
        let importer = makeImporter path;
            w0 = w\<lparr>importer_calls := importer_calls w @ [MakeImporter path]\<rparr>;
            w1 = w0\<lparr>locked_maps := locked_maps w0 @ [path]\<rparr>;
            (res, w2) = run_import path importer w1
        in
          case res of
            Some Thrown \<Rightarrow> Inl (UncaughtException w2)
          | _ \<Rightarrow>
            let ret = (case res of Some (Returned r) \<Rightarrow> Some r | _ \<Rightarrow> None);
                new_template_valid = (case ret of None \<Rightarrow> False | Some r \<Rightarrow> import_ok r);
                w3 = w2\<lparr>locked_maps := removeAll path (locked_maps w2)\<rparr>
            in
              if new_template_valid then
                (case ret of
                   None \<Rightarrow> Inr (False, w3, t)
                 | Some r \<Rightarrow>
                     let new_template_map = imported_map r in
                     Inr (True, w3,
                          t\<lparr>template_map :=
                              Some (delete_templates_loop (getNumTemplates new_template_map - 1)
                                      new_template_map)\<rparr>))
              else if configuring then
                (case ret of
                   Some r \<Rightarrow>
                     (if warnings r = [] then Inl BackOnEmptyList
                      else Inr (False, w3, setErrorString (last (warnings r)) t))
                 | None \<Rightarrow>
                     Inr (False, w3, setErrorString (tr ''Cannot load map file, aborting.'') t))
              else Inr (False, w3, t))"

subsection \<open>unloadTemplateFileImpl and getTemplateExtent\<close>

definition unloadTemplateFileImpl :: "('t, 'c, 'x) TemplateMap \<Rightarrow> ('t, 'c, 'x) TemplateMap" where
  "unloadTemplateFileImpl t = t\<lparr>template_map := None\<rparr>"

text \<open>
  \<^verbatim>\<open>Map::calculateExtent(include_helper_symbols, include_templates, view)\<close> is a
  parameter; the call passes \<^verbatim>\<open>false, false, nullptr\<close>.
\<close>

definition getTemplateExtent ::
  "(('t, 'c) Map \<Rightarrow> bool \<Rightarrow> bool \<Rightarrow> QRectF) \<Rightarrow> ('t, 'c, 'x) TemplateMap \<Rightarrow> QRectF" where
  "getTemplateExtent calculateExtent t =
     (let extent = QRectF_default in
      case template_map t of
        Some m \<Rightarrow> calculateExtent m False False
      | None \<Rightarrow> extent)"

subsection \<open>drawTemplate\<close>

text \<open>
  The painter, as far as \<^verbatim>\<open>drawTemplate\<close> uses it: the two resolutions of its paint
  device, the antialiasing render hint, and the rest of its state (\<open>'p\<close>, with the world
  transform), which \<^verbatim>\<open>applyTemplateTransform\<close> changes.
\<close>

record 'p QPainter =
  physicalDpiX :: int
  logicalDpiX :: int
  antialiasing :: bool
  painter_state :: 'p

record ('t, 'c) RenderConfig =
  config_map :: "('t, 'c) Map"
  bounding_box :: QRectF
  scaling :: real
  options_screen :: bool   \<comment> \<open>the flag \<^verbatim>\<open>RenderConfig::Screen\<close> of \<^verbatim>\<open>options\<close>\<close>
  opacity :: real

text \<open>
  What \<^verbatim>\<open>drawTemplate\<close> calls from other files: the cached setting
  \<^verbatim>\<open>MapDisplay_Antialiasing\<close>, \<^verbatim>\<open>Template::applyTemplateTransform\<close>,
  \<^verbatim>\<open>Template::mapToTemplate\<close>, \<^verbatim>\<open>rectIncludeSafe\<close> and
  \<^verbatim>\<open>Util::mmToPixelPhysical\<close>.
\<close>

record ('t, 'c, 'x, 'p) DrawEnv =
  setting_antialiasing :: bool
  applyTemplateTransform :: "('t, 'c, 'x) TemplateMap \<Rightarrow> 'p \<Rightarrow> 'p"
  mapToTemplate :: "('t, 'c, 'x) TemplateMap \<Rightarrow> MapCoordF \<Rightarrow> MapCoordF"
  rectIncludeSafe :: "QRectF \<Rightarrow> MapCoordF \<Rightarrow> QRectF"
  mmToPixelPhysical :: "real \<Rightarrow> real"

definition topLeft :: "QRectF \<Rightarrow> MapCoordF" where
  "topLeft r = (rect_x r, rect_y r)"

definition topRight :: "QRectF \<Rightarrow> MapCoordF" where
  "topRight r = (rect_x r + rect_width r, rect_y r)"

definition bottomLeft :: "QRectF \<Rightarrow> MapCoordF" where
  "bottomLeft r = (rect_x r, rect_y r + rect_height r)"

definition bottomRight :: "QRectF \<Rightarrow> MapCoordF" where
  "bottomRight r = (rect_x r + rect_width r, rect_y r + rect_height r)"

text \<open>
  The result is the painter as set up and the \<^verbatim>\<open>RenderConfig\<close> handed to
  \<^verbatim>\<open>Map::draw\<close>. \<^verbatim>\<open>dpi\<close> is an \<^verbatim>\<open>int\<close>; \<^verbatim>\<open>dpi / 25.4\<close> is a division of doubles.
\<close>

definition drawTemplate ::
  "('t, 'c, 'x, 'p) DrawEnv \<Rightarrow> ('t, 'c, 'x) TemplateMap \<Rightarrow> 'p QPainter \<Rightarrow> QRectF \<Rightarrow> real
     \<Rightarrow> bool \<Rightarrow> real \<Rightarrow> error + ('p QPainter \<times> ('t, 'c) RenderConfig)" where
  "drawTemplate env t painter clip_rect scale on_screen opac =
     (let painter1 =
            (if \<not> is_georeferenced t then
               painter\<lparr>painter_state := applyTemplateTransform env t (painter_state painter)\<rparr>
             else painter);
          painter2 = (if setting_antialiasing env then painter1\<lparr>antialiasing := True\<rparr>
                      else painter1);
          transformed_clip_rect =
            (if \<not> is_georeferenced t then
               rectIncludeSafe env
                 (rectIncludeSafe env
                    (rectIncludeSafe env
                       (rectIncludeSafe env QRectF_default
                          (mapToTemplate env t (topLeft clip_rect)))
                       (mapToTemplate env t (topRight clip_rect)))
                    (mapToTemplate env t (bottomLeft clip_rect)))
                 (mapToTemplate env t (bottomRight clip_rect))
             else clip_rect);
          scaling0 = scale;
          scaling1 =
            (if on_screen then mmToPixelPhysical env scale
             else
               let dpi0 = physicalDpiX painter2;
                   dpi = (if dpi0 = 0 then logicalDpiX painter2 else dpi0)
               in if dpi > 0 then scaling0 * (real_of_int dpi / 25.4) else scaling0)
      in case template_map t of
           None \<Rightarrow> Inl NullMapDereference
         | Some m \<Rightarrow>
             Inr (painter2,
                  \<lparr>config_map = m, bounding_box = transformed_clip_rect, scaling = scaling1,
                   options_screen = on_screen, opacity = opac\<rparr>))"

subsection \<open>calculateTransformation\<close>

record PassPoint =
  src_coords :: MapCoordF
  dest_coords :: MapCoordF

text \<open>Qt's \<^verbatim>\<open>QTransform\<close>: a point \<open>(x, y)\<close> goes to
  \<open>(m11 x + m21 y + m31, m12 x + m22 y + m32)\<close> when the last column is \<open>(0, 0, 1)\<close>.\<close>

record QTransform =
  m11 :: real
  m12 :: real
  m13 :: real
  m21 :: real
  m22 :: real
  m23 :: real
  m31 :: real
  m32 :: real
  m33 :: real

definition coord_add :: "MapCoordF \<Rightarrow> MapCoordF \<Rightarrow> MapCoordF" where
  "coord_add p q = (fst p + fst q, snd p + snd q)"

text \<open>
  The three pass points and the three flags, lines 236 to 242. The parameter
  \<open>toMapCoordF georef p\<close> is \<^verbatim>\<open>map->getGeoreferencing().toMapCoordF(&georef, p, &ok)\<close>
  of the host map: it returns the coordinates and the flag \<^verbatim>\<open>ok\<close>.
\<close>

definition passpoints_of ::
  "(Georeferencing \<Rightarrow> MapCoordF \<Rightarrow> MapCoordF \<times> bool) \<Rightarrow> Georeferencing
     \<Rightarrow> PassPoint list \<times> bool \<times> bool \<times> bool" where
  "passpoints_of toMapCoordF georef =
     (let src_origin = getMapRefPoint georef;
          src0 = src_origin;
          (dest0, ok0) = toMapCoordF georef src0;
          src1 = coord_add src_origin (128, 0);
          (dest1, ok1) = toMapCoordF georef src1;
          src2 = coord_add src_origin (0, 128);
          (dest2, ok2) = toMapCoordF georef src2
      in ([\<lparr>src_coords = src0, dest_coords = dest0\<rparr>,
           \<lparr>src_coords = src1, dest_coords = dest1\<rparr>,
           \<lparr>src_coords = src2, dest_coords = dest2\<rparr>], ok0, ok1, ok2))"

text \<open>
  \<open>estimate\<close> is \<^verbatim>\<open>PassPointList::estimateNonIsometricSimilarityTransform\<close>
  (\<open>None\<close> when it returns false), \<open>fromQTransform\<close> is
  \<^verbatim>\<open>TemplateTransform::fromQTransform\<close> and \<open>updateTransformationMatrices\<close> is the
  member of \<^verbatim>\<open>Template\<close>; none of them is among the sources. The failing branch only
  writes a debug message.
\<close>

definition calculateTransformation ::
  "(Georeferencing \<Rightarrow> MapCoordF \<Rightarrow> MapCoordF \<times> bool) \<Rightarrow> (PassPoint list \<Rightarrow> QTransform option)
     \<Rightarrow> (QTransform \<Rightarrow> 'x) \<Rightarrow> (('t, 'c, 'x) TemplateMap \<Rightarrow> ('t, 'c, 'x) TemplateMap)
     \<Rightarrow> ('t, 'c, 'x) TemplateMap \<Rightarrow> error + ('t, 'c, 'x) TemplateMap" where
  "calculateTransformation toMapCoordF estimate fromQTransform updateTransformationMatrices t =
     (case template_map t of
        None \<Rightarrow> Inl NullMapDereference
      | Some m \<Rightarrow>
          let georef = getGeoreferencing m;
              (passpoints, ok0, ok1, ok2) = passpoints_of toMapCoordF georef
          in if ok0 \<and> ok1 \<and> ok2 then
               (case estimate passpoints of
                  Some q_transform \<Rightarrow>
                    Inr (updateTransformationMatrices (t\<lparr>transform := fromQTransform q_transform\<rparr>))
                | None \<Rightarrow> Inr t)
             else Inr t)"

text \<open>
  Modelled from the spec: \<^verbatim>\<open>PassPointList::estimateNonIsometricSimilarityTransform\<close> is
  defined in util/transformation.cpp, which is not among the sources. The spec describes it as
  fitting "a similarity transform (uniform scale + rotation + translation, no shear) through
  the 3 pairs using a least-squares or closed-form 3-point similarity estimator". This is the
  closed form of the least-squares similarity: with both point sets taken relative to their
  centroids, the linear part \<open>(a, b)\<close> minimises the sum of the squared distances, and the
  translation maps the source centroid to the destination centroid. The fit fails when there
  is no pass point or all sources coincide.
\<close>

definition centroid :: "MapCoordF list \<Rightarrow> MapCoordF" where
  "centroid ps = (sum_list (map fst ps) / real (length ps), sum_list (map snd ps) / real (length ps))"

definition estimateNonIsometricSimilarityTransform :: "PassPoint list \<Rightarrow> QTransform option" where
  "estimateNonIsometricSimilarityTransform pps =
     (let c = centroid (map src_coords pps);
          d = centroid (map dest_coords pps);
          den = (\<Sum>p\<leftarrow>pps. (fst (src_coords p) - fst c)\<^sup>2 + (snd (src_coords p) - snd c)\<^sup>2);
          a = (\<Sum>p\<leftarrow>pps. (fst (src_coords p) - fst c) * (fst (dest_coords p) - fst d)
                       + (snd (src_coords p) - snd c) * (snd (dest_coords p) - snd d)) / den;
          b = (\<Sum>p\<leftarrow>pps. (fst (src_coords p) - fst c) * (snd (dest_coords p) - snd d)
                       - (snd (src_coords p) - snd c) * (fst (dest_coords p) - fst d)) / den
      in if pps = [] \<or> den = 0 then None
         else Some \<lparr>m11 = a, m12 = b, m13 = 0,
                    m21 = - b, m22 = a, m23 = 0,
                    m31 = fst d - (a * fst c - b * snd c),
                    m32 = snd d - (b * fst c + a * snd c),
                    m33 = 1\<rparr>)"

text \<open>Applying a \<^verbatim>\<open>QTransform\<close> whose last column is \<open>(0, 0, 1)\<close> to a point
  (\<^verbatim>\<open>QTransform::map\<close>).\<close>

definition qt_map :: "QTransform \<Rightarrow> MapCoordF \<Rightarrow> MapCoordF" where
  "qt_map q p = (m11 q * fst p + m21 q * snd p + m31 q, m12 q * fst p + m22 q * snd p + m32 q)"

text \<open>The matrix of the similarity with uniform scale \<open>s\<close>, rotation angle \<open>phi\<close> and
  translation \<open>(dx, dy)\<close>: no shear, the same scale on both axes.\<close>

definition similarity :: "real \<Rightarrow> real \<Rightarrow> real \<Rightarrow> real \<Rightarrow> QTransform" where
  "similarity s phi dx dy =
     \<lparr>m11 = s * cos phi, m12 = s * sin phi, m13 = 0,
      m21 = - (s * sin phi), m22 = s * cos phi, m23 = 0,
      m31 = dx, m32 = dy, m33 = 1\<rparr>"

text \<open>The sum of the squared distances between the images of the sources under \<open>q\<close> and the
  destinations: what a least-squares fit minimises.\<close>

definition fit_error :: "QTransform \<Rightarrow> PassPoint list \<Rightarrow> real" where
  "fit_error q pps =
     (\<Sum>p\<leftarrow>pps. (fst (qt_map q (src_coords p)) - fst (dest_coords p))\<^sup>2
                + (snd (qt_map q (src_coords p)) - snd (dest_coords p))\<^sup>2)"

subsection \<open>Notions used to state the properties\<close>

text \<open>
  Lines 97 to 99 for a path that is not locked: the importer is made, the path is appended to
  \<^verbatim>\<open>locked_maps\<close> and the import runs. The result is the outcome of the import
  (\<open>None\<close> for the null importer) and the process-wide state after it.
\<close>

definition import_result ::
  "(string \<Rightarrow> ('t, 'c) Importer option) \<Rightarrow> World \<Rightarrow> string
     \<Rightarrow> ('t, 'c) ImportOutcome option \<times> World" where
  "import_result makeImporter w path =
     run_import path (makeImporter path)
       (w\<lparr>importer_calls := importer_calls w @ [MakeImporter path],
          locked_maps := locked_maps w @ [path]\<rparr>)"

text \<open>
  An importer is neutral for the guard when \<^verbatim>\<open>doImport\<close> ends with
  \<^verbatim>\<open>locked_maps\<close> as it found it. The only code that changes \<^verbatim>\<open>locked_maps\<close> is
  \<^verbatim>\<open>loadTemplateFileImpl\<close>, so an importer changes it through nested loads only, and
  a nested load is itself neutral (lemma \<open>load_preserves_guard\<close> below).
\<close>

definition guard_neutral :: "('t, 'c) Importer \<Rightarrow> bool" where
  "guard_neutral doImport = (\<forall>w. locked_maps (snd (doImport w)) = locked_maps w)"

subsection \<open>Concrete inputs\<close>

definition identity_transform :: QTransform where
  "identity_transform =
     \<lparr>m11 = 1, m12 = 0, m13 = 0, m21 = 0, m22 = 1, m23 = 0, m31 = 0, m32 = 0, m33 = 1\<rparr>"

definition example_template :: "(unit, unit, QTransform) TemplateMap" where
  "example_template =
     \<lparr>template_path = ''a.omap'', template_map = None, error_string = [],
      transform = identity_transform, is_georeferenced = False\<rparr>"

definition example_map :: "(unit, unit) Map" where
  "example_map =
     \<lparr>templates = [(), ()], closed_templates = [()],
      getGeoreferencing = \<lparr>getMapRefPoint = (10, 20)\<rparr>, content = ()\<rparr>"

definition loaded_template :: "(unit, unit, QTransform) TemplateMap" where
  "loaded_template = example_template\<lparr>template_map := Some example_map\<rparr>"

definition idle_world :: World where
  "idle_world = \<lparr>locked_maps = [], importer_calls = []\<rparr>"

definition busy_world :: World where
  "busy_world = \<lparr>locked_maps = [''a.omap''], importer_calls = []\<rparr>"

definition makeImporter_none :: "string \<Rightarrow> (unit, unit) Importer option" where
  "makeImporter_none p = None"

definition failing_importer :: "string list \<Rightarrow> (unit, unit) Importer" where
  "failing_importer ws w =
     (Returned \<lparr>import_ok = False, imported_map = example_map, warnings = ws\<rparr>, w)"

definition succeeding_importer :: "(unit, unit) Importer" where
  "succeeding_importer w =
     (Returned \<lparr>import_ok = True, imported_map = example_map, warnings = []\<rparr>, w)"

text \<open>An importer whose \<^verbatim>\<open>doImport\<close> throws, for example \<^verbatim>\<open>std::bad_alloc\<close> while
  it reads the file.\<close>

definition throwing_importer :: "(unit, unit) Importer" where
  "throwing_importer w = (Thrown, w)"

text \<open>An importer for a.omap that, while importing, loads a.omap again as a template of the
  map it imports: the nested load finds the path locked.\<close>

definition self_referring_importer :: "(unit, unit) Importer" where
  "self_referring_importer w =
     (case loadTemplateFileImpl (\<lambda>p. None) False (w, example_template) of
        Inr (ok, w', t') \<Rightarrow>
          (Returned \<lparr>import_ok = ok, imported_map = example_map, warnings = []\<rparr>, w')
      | Inl (UncaughtException w') \<Rightarrow> (Thrown, w')
      | Inl e \<Rightarrow> (Thrown, w))"

definition example_env :: "(unit, unit, QTransform, unit) DrawEnv" where
  "example_env =
     \<lparr>setting_antialiasing = True,
      applyTemplateTransform = (\<lambda>t p. p),
      mapToTemplate = (\<lambda>t p. p),
      rectIncludeSafe = (\<lambda>r p. r),
      mmToPixelPhysical = (\<lambda>mm. mm * 4)\<rparr>"

definition example_painter :: "int \<Rightarrow> int \<Rightarrow> unit QPainter" where
  "example_painter physical logical =
     \<lparr>physicalDpiX = physical, logicalDpiX = logical, antialiasing = False, painter_state = ()\<rparr>"

text \<open>Host georeferencings: the first two shift a coordinate by (1000, 2000), and the second
  converts only points with x below 100; the third doubles, turns by a right angle and shifts;
  the fourth shears.\<close>

definition shift_toMapCoordF :: "Georeferencing \<Rightarrow> MapCoordF \<Rightarrow> MapCoordF \<times> bool" where
  "shift_toMapCoordF georef p = ((fst p + 1000, snd p + 2000), True)"

definition partial_toMapCoordF :: "Georeferencing \<Rightarrow> MapCoordF \<Rightarrow> MapCoordF \<times> bool" where
  "partial_toMapCoordF georef p = ((fst p + 1000, snd p + 2000), fst p < 100)"



section \<open>Properties\<close>

subsection \<open>Lemmas on loadTemplateFileImpl\<close>

lemma load_locked:
  "template_path t \<in> set (locked_maps w) \<Longrightarrow>
     loadTemplateFileImpl makeImporter configuring (w, t) = Inr (True, w, t)"
  by (simp add: loadTemplateFileImpl_def)

text \<open>The loop deletes the last template, then the one before it, down to the first.\<close>

lemma delete_templates_loop_all:
  "i = int (length (templates m)) - 1 \<Longrightarrow> delete_templates_loop i m = m\<lparr>templates := []\<rparr>"
proof (induction i m rule: delete_templates_loop.induct)
  case (1 i m)
  show ?case
  proof (cases "i \<ge> 0")
    case True
    then have len: "length (templates m) = Suc (nat i)"
      using "1.prems" by linarith
    have "int (length (templates (deleteTemplate i m))) - 1 = i - 1"
      using len True by (simp add: deleteTemplate_def)
    then have "delete_templates_loop (i - 1) (deleteTemplate i m)
                 = (deleteTemplate i m)\<lparr>templates := []\<rparr>"
      using "1.IH" True by simp
    then show ?thesis
      using True by (simp add: delete_templates_loop.simps [of i m] deleteTemplate_def)
  next
    case False
    then have "templates m = []"
      using "1.prems" by simp
    then show ?thesis
      using False by (simp add: delete_templates_loop.simps [of i m])
  qed
qed

text \<open>The function on a path that is not locked, by the result of the import.\<close>

lemma load_unlocked:
  assumes "template_path t \<notin> set (locked_maps w)"
  shows "loadTemplateFileImpl makeImporter configuring (w, t) =
    (let (res, w2) = import_result makeImporter w (template_path t);
         w3 = w2\<lparr>locked_maps := removeAll (template_path t) (locked_maps w2)\<rparr>
     in case res of
          None \<Rightarrow>
            Inr (False, w3,
                 if configuring then t\<lparr>error_string := ''Cannot load map file, aborting.''\<rparr>
                 else t)
        | Some Thrown \<Rightarrow> Inl (UncaughtException w2)
        | Some (Returned r) \<Rightarrow>
            if import_ok r then
              Inr (True, w3, t\<lparr>template_map := Some ((imported_map r)\<lparr>templates := []\<rparr>)\<rparr>)
            else if configuring then
              (if warnings r = [] then Inl BackOnEmptyList
               else Inr (False, w3, t\<lparr>error_string := last (warnings r)\<rparr>))
            else Inr (False, w3, t))"
  using assms
  by (simp add: loadTemplateFileImpl_def import_result_def Let_def setErrorString_def tr_def
      delete_templates_loop_all getNumTemplates_def
      split: prod.splits option.splits ImportOutcome.splits)

lemma import_result_guard:
  assumes "\<forall>imp. makeImporter path = Some imp \<longrightarrow> guard_neutral imp"
  shows "locked_maps (snd (import_result makeImporter w path)) = locked_maps w @ [path]"
  using assms
  by (auto simp: import_result_def run_import_def guard_neutral_def
      split: option.splits prod.splits dest: arg_cong [where f = "\<lambda>x. locked_maps (snd x)"])

lemma load_unlocked_guard:
  assumes "template_path t \<notin> set (locked_maps w)"
      and "loadTemplateFileImpl makeImporter configuring (w, t) = Inr (r, w', t')"
  shows "template_path t \<notin> set (locked_maps w')"
    and "(\<forall>imp. makeImporter (template_path t) = Some imp \<longrightarrow> guard_neutral imp)
           \<Longrightarrow> locked_maps w' = locked_maps w"
proof -
  obtain res w2 where ir: "import_result makeImporter w (template_path t) = (res, w2)"
    by (cases "import_result makeImporter w (template_path t)")
  have w': "locked_maps w' = removeAll (template_path t) (locked_maps w2)"
    using assms by (auto simp: load_unlocked ir Let_def split: option.splits ImportOutcome.splits if_splits)
  then show "template_path t \<notin> set (locked_maps w')"
    by simp
  assume "\<forall>imp. makeImporter (template_path t) = Some imp \<longrightarrow> guard_neutral imp"
  then have "locked_maps w2 = locked_maps w @ [template_path t]"
    using import_result_guard [of makeImporter "template_path t" w] ir by simp
  then show "locked_maps w' = locked_maps w"
    using w' assms(1) by simp
qed

lemma load_error:
  "loadTemplateFileImpl makeImporter configuring (w, t) = Inl e \<Longrightarrow>
     e = BackOnEmptyList \<or> (\<exists>w'. e = UncaughtException w')"
proof (cases "template_path t \<in> set (locked_maps w)")
  case True
  assume "loadTemplateFileImpl makeImporter configuring (w, t) = Inl e"
  then show ?thesis using True by (simp add: load_locked)
next
  case False
  obtain res w2 where ir: "import_result makeImporter w (template_path t) = (res, w2)"
    by (cases "import_result makeImporter w (template_path t)")
  assume "loadTemplateFileImpl makeImporter configuring (w, t) = Inl e"
  then show ?thesis
    using False by (auto simp: load_unlocked ir Let_def split: option.splits ImportOutcome.splits if_splits)
qed

text \<open>A load leaves the guard as it found it when the importer it runs does; so an importer
  that loads nested templates through \<^verbatim>\<open>loadTemplateFileImpl\<close> is neutral again.\<close>

lemma load_preserves_guard:
  assumes "\<forall>imp. makeImporter (template_path t) = Some imp \<longrightarrow> guard_neutral imp"
      and "loadTemplateFileImpl makeImporter configuring (w, t) = Inr (r, w', t')"
  shows "locked_maps w' = locked_maps w"
proof (cases "template_path t \<in> set (locked_maps w)")
  case True
  then show ?thesis
    using assms(2) by (simp add: load_locked)
next
  case False
  then show ?thesis
    using load_unlocked_guard(2) [OF False assms(2)] assms(1) by simp
qed

text \<open>Without an importer a load always returns.\<close>

lemma load_no_importer_returns:
  assumes "makeImporter (template_path t) = None"
  shows "\<exists>r w' t'. loadTemplateFileImpl makeImporter configuring (w, t) = Inr (r, w', t')"
proof (cases "template_path t \<in> set (locked_maps w)")
  case True
  then show ?thesis
    by (auto simp: load_locked)
next
  case False
  then show ?thesis
    using assms by (auto simp: load_unlocked import_result_def run_import_def)
qed

lemma self_referring_importer_neutral: "guard_neutral self_referring_importer"
  unfolding guard_neutral_def
proof
  fix w
  obtain ok w' t' where run:
    "loadTemplateFileImpl (\<lambda>p. None) False (w, example_template) = Inr (ok, w', t')"
    using load_no_importer_returns [of "\<lambda>p. None" example_template False w] by auto
  have "locked_maps w' = locked_maps w"
    using load_preserves_guard [of "\<lambda>p. None" example_template False w ok w' t'] run
    by simp
  then show "locked_maps (snd (self_referring_importer w)) = locked_maps w"
    using run by (simp add: self_referring_importer_def)
qed

text \<open>An exception out of \<^verbatim>\<open>doImport\<close> leaves the function with the state the importer
  left: the path appended at line 98 is still in \<^verbatim>\<open>locked_maps\<close>.\<close>

lemma load_exception:
  assumes "template_path t \<notin> set (locked_maps w)"
      and "import_result makeImporter w (template_path t) = (Some Thrown, w2)"
  shows "loadTemplateFileImpl makeImporter configuring (w, t) = Inl (UncaughtException w2)"
    and "(\<forall>imp. makeImporter (template_path t) = Some imp \<longrightarrow> guard_neutral imp)
           \<Longrightarrow> template_path t \<in> set (locked_maps w2)"
proof -
  show "loadTemplateFileImpl makeImporter configuring (w, t) = Inl (UncaughtException w2)"
    using assms by (simp add: load_unlocked)
  assume "\<forall>imp. makeImporter (template_path t) = Some imp \<longrightarrow> guard_neutral imp"
  then have "locked_maps w2 = locked_maps w @ [template_path t]"
    using import_result_guard [of makeImporter "template_path t" w] assms(2) by simp
  then show "template_path t \<in> set (locked_maps w2)"
    by simp
qed

lemma load_false_keeps_map:
  assumes "loadTemplateFileImpl makeImporter configuring (w, t) = Inr (False, w', t')"
  shows "template_map t' = template_map t"
proof (cases "template_path t \<in> set (locked_maps w)")
  case True
  then show ?thesis
    using assms by (simp add: load_locked)
next
  case False
  obtain res w2 where ir: "import_result makeImporter w (template_path t) = (res, w2)"
    by (cases "import_result makeImporter w (template_path t)")
  show ?thesis
    using assms False by (auto simp: load_unlocked ir Let_def split: option.splits ImportOutcome.splits if_splits)
qed

lemma example_unlocked: "template_path example_template \<notin> set (locked_maps idle_world)"
  by (simp add: example_template_def idle_world_def)

subsection \<open>The recursion guard\<close>

text \<open>
  C1. Every return of \<^verbatim>\<open>loadTemplateFileImpl\<close> on a path that was not locked passes
  line 100 and leaves the path out of \<^verbatim>\<open>locked_maps\<close> (lemma
  \<open>load_unlocked_guard\<close>). The exit by an exception does not: when \<^verbatim>\<open>doImport\<close>
  throws, line 100 is skipped. Here a first load of a.omap, started with an empty guard, ends
  by the exception with a.omap still locked, and a later load of the same template returns
  true at line 94 without making an importer: the template stays without a map.
\<close>

theorem load_exception_keeps_path_locked:
  "template_path example_template \<notin> set (locked_maps idle_world) \<and>
   locked_maps idle_world = [] \<and>
   loadTemplateFileImpl (\<lambda>p. Some throwing_importer) True (idle_world, example_template)
     = Inl (UncaughtException
              \<lparr>locked_maps = [''a.omap''],
               importer_calls = [MakeImporter ''a.omap'', DoImport ''a.omap'']\<rparr>) \<and>
   loadTemplateFileImpl (\<lambda>p. Some succeeding_importer) True
       (\<lparr>locked_maps = [''a.omap''],
         importer_calls = [MakeImporter ''a.omap'', DoImport ''a.omap'']\<rparr>, example_template)
     = Inr (True,
            \<lparr>locked_maps = [''a.omap''],
             importer_calls = [MakeImporter ''a.omap'', DoImport ''a.omap'']\<rparr>,
            example_template) \<and>
   template_map example_template = None"
proof -
  have first: "loadTemplateFileImpl (\<lambda>p. Some throwing_importer) True
      (idle_world, example_template)
     = Inl (UncaughtException
              \<lparr>locked_maps = [''a.omap''],
               importer_calls = [MakeImporter ''a.omap'', DoImport ''a.omap'']\<rparr>)"
    unfolding load_unlocked [OF example_unlocked]
    by (simp add: import_result_def run_import_def throwing_importer_def idle_world_def
        example_template_def)
  have second: "loadTemplateFileImpl (\<lambda>p. Some succeeding_importer) True
       (\<lparr>locked_maps = [''a.omap''],
         importer_calls = [MakeImporter ''a.omap'', DoImport ''a.omap'']\<rparr>, example_template)
     = Inr (True,
            \<lparr>locked_maps = [''a.omap''],
             importer_calls = [MakeImporter ''a.omap'', DoImport ''a.omap'']\<rparr>,
            example_template)"
    by (rule load_locked) (simp add: example_template_def)
  show ?thesis
    using first second example_unlocked by (simp add: idle_world_def example_template_def)
qed

text \<open>
  C2. When the path is already in \<^verbatim>\<open>locked_maps\<close>, the call returns true whatever the
  importer registry is; the process-wide state, with the record of importer calls, and the
  template object are those of before the call: no importer was made or run.
\<close>

theorem load_locked_noop:
  assumes "template_path t \<in> set (locked_maps w)"
  shows "loadTemplateFileImpl makeImporter configuring (w, t) = Inr (True, w, t)"
  using assms by (simp add: loadTemplateFileImpl_def)

theorem load_locked_noop_witness:
  "template_path example_template \<in> set (locked_maps busy_world) \<and>
   loadTemplateFileImpl (\<lambda>p. Some succeeding_importer) True (busy_world, example_template)
     = Inr (True, busy_world, example_template) \<and>
   importer_calls busy_world = [] \<and> template_map example_template = None"
proof -
  have locked: "template_path example_template \<in> set (locked_maps busy_world)"
    by (simp add: example_template_def busy_world_def)
  show ?thesis
    using load_locked_noop [OF locked, of "\<lambda>p. Some succeeding_importer" True] locked
    by (simp add: busy_world_def example_template_def)
qed

subsection \<open>Failed and successful imports\<close>




text \<open>
  C7, as the code has it. When the import succeeds, the loop deletes every open template of
  the imported map, those that \<^verbatim>\<open>getNumTemplates\<close> counts, from the last index down to
  0, and the map stored in \<^verbatim>\<open>template_map\<close> is the imported map with an empty list of
  open templates and nothing else changed: its closed templates are still there. The loop
  works on the list of the imported map only; it does not look inside a template.
\<close>

theorem load_success_strips_templates:
  assumes "template_path t \<notin> set (locked_maps w)"
      and "import_result makeImporter w (template_path t) = (Some (Returned r), w2)"
      and "import_ok r"
  shows "loadTemplateFileImpl makeImporter configuring (w, t)
           = Inr (True, w2\<lparr>locked_maps := removeAll (template_path t) (locked_maps w2)\<rparr>,
                  t\<lparr>template_map := Some ((imported_map r)\<lparr>templates := []\<rparr>)\<rparr>) \<and>
         delete_templates_loop (getNumTemplates (imported_map r) - 1) (imported_map r)
           = (imported_map r)\<lparr>templates := []\<rparr> \<and>
         getNumTemplates ((imported_map r)\<lparr>templates := []\<rparr>) = 0 \<and>
         closed_templates ((imported_map r)\<lparr>templates := []\<rparr>)
           = closed_templates (imported_map r)"
  using assms by (simp add: load_unlocked delete_templates_loop_all getNumTemplates_def)

theorem load_success_strips_templates_witness:
  "template_path example_template \<notin> set (locked_maps idle_world) \<and>
   templates example_map = [(), ()] \<and>
   loadTemplateFileImpl (\<lambda>p. Some succeeding_importer) False (idle_world, example_template)
     = Inr (True,
            \<lparr>locked_maps = [], importer_calls = [MakeImporter ''a.omap'', DoImport ''a.omap'']\<rparr>,
            example_template\<lparr>template_map := Some (example_map\<lparr>templates := []\<rparr>)\<rparr>)"
proof -
  have ir: "import_result (\<lambda>p. Some succeeding_importer) idle_world
              (template_path example_template)
            = (Some (Returned \<lparr>import_ok = True, imported_map = example_map, warnings = []\<rparr>),
               \<lparr>locked_maps = [''a.omap''],
                importer_calls = [MakeImporter ''a.omap'', DoImport ''a.omap'']\<rparr>)"
    by (simp add: import_result_def run_import_def succeeding_importer_def idle_world_def
        example_template_def)
  have ok: "import_ok \<lparr>import_ok = True, imported_map = example_map, warnings = []\<rparr>"
    by simp
  have open_templates: "templates example_map = [(), ()]"
    by (simp add: example_map_def)
  show ?thesis
    using load_success_strips_templates [OF example_unlocked ir ok, of False] example_unlocked
      open_templates
    by (simp add: example_template_def)
qed

text \<open>A closed template of the imported map is not deleted: the map imported here has two
  open templates and one closed template, and the map stored after the load still has the
  closed one.\<close>

theorem load_success_keeps_closed_templates_counterexample:
  "getNumTemplates example_map = 2 \<and>
   getNumClosedTemplates example_map = 1 \<and>
   loadTemplateFileImpl (\<lambda>p. Some succeeding_importer) False (idle_world, example_template)
     = Inr (True,
            \<lparr>locked_maps = [], importer_calls = [MakeImporter ''a.omap'', DoImport ''a.omap'']\<rparr>,
            example_template
              \<lparr>template_map :=
                 Some \<lparr>templates = [], closed_templates = [()],
                       getGeoreferencing = \<lparr>getMapRefPoint = (10, 20)\<rparr>, content = ()\<rparr>\<rparr>) \<and>
   getNumClosedTemplates
     \<lparr>templates = [], closed_templates = [()],
      getGeoreferencing = \<lparr>getMapRefPoint = (10, 20)\<rparr>, content = ()\<rparr> = 1"
  unfolding load_unlocked [OF example_unlocked]
  by (simp add: import_result_def run_import_def succeeding_importer_def idle_world_def
      example_template_def example_map_def getNumTemplates_def getNumClosedTemplates_def)

text \<open>
  C10. A configuring call whose importer exists and whose import fails reads the last element
  of the importer's warnings. With at least one warning the call returns false with that
  warning as the error string; with an empty list the read is out of bounds.
\<close>

theorem load_failure_reads_last_warning:
  assumes "template_path t \<notin> set (locked_maps w)"
      and "import_result makeImporter w (template_path t) = (Some (Returned r), w2)"
      and "\<not> import_ok r"
      and "configuring"
  shows "loadTemplateFileImpl makeImporter configuring (w, t) =
           (if warnings r = [] then Inl BackOnEmptyList
            else Inr (False, w2\<lparr>locked_maps := removeAll (template_path t) (locked_maps w2)\<rparr>,
                      t\<lparr>error_string := last (warnings r)\<rparr>))"
  using assms by (simp add: load_unlocked)

theorem load_failure_reads_last_warning_witness:
  "template_path example_template \<notin> set (locked_maps idle_world) \<and>
   loadTemplateFileImpl (\<lambda>p. Some (failing_importer [])) True (idle_world, example_template)
     = Inl BackOnEmptyList"
proof -
  have ir: "import_result (\<lambda>p. Some (failing_importer [])) idle_world
              (template_path example_template)
            = (Some (Returned \<lparr>import_ok = False, imported_map = example_map, warnings = []\<rparr>),
               \<lparr>locked_maps = [''a.omap''],
                importer_calls = [MakeImporter ''a.omap'', DoImport ''a.omap'']\<rparr>)"
    by (simp add: import_result_def run_import_def failing_importer_def idle_world_def
        example_template_def)
  have failed: "\<not> import_ok \<lparr>import_ok = False, imported_map = example_map, warnings = []\<rparr>"
    by simp
  show ?thesis
    using load_failure_reads_last_warning [OF example_unlocked ir failed, of True]
      example_unlocked
    by simp
qed

subsection \<open>The extent\<close>

text \<open>
  C9. Without a loaded map the extent is the default rectangle, which is empty: before any
  load, after \<^verbatim>\<open>unloadTemplateFileImpl\<close>, and after a load that returned false on a
  template that had no map. With a loaded map the extent is what
  \<^verbatim>\<open>calculateExtent(false, false, nullptr)\<close> returns for that map; no transform is
  applied to it.
\<close>

theorem getTemplateExtent_cases:
  "(template_map t = None \<longrightarrow> getTemplateExtent calculateExtent t = QRectF_default) \<and>
   isEmpty QRectF_default \<and>
   (\<forall>m. template_map t = Some m \<longrightarrow>
          getTemplateExtent calculateExtent t = calculateExtent m False False) \<and>
   getTemplateExtent calculateExtent (unloadTemplateFileImpl t) = QRectF_default \<and>
   (\<forall>w w' t'. template_map t = None \<and>
       loadTemplateFileImpl makeImporter configuring (w, t) = Inr (False, w', t') \<longrightarrow>
       getTemplateExtent calculateExtent t' = QRectF_default)"
  using load_false_keeps_map [of makeImporter configuring _ t]
  by (auto simp: getTemplateExtent_def unloadTemplateFileImpl_def isEmpty_def QRectF_default_def)

theorem getTemplateExtent_cases_witness:
  "template_map loaded_template = Some example_map \<and>
   getTemplateExtent (\<lambda>m a b. QRectF 1 2 3 4) loaded_template = QRectF 1 2 3 4 \<and>
   getTemplateExtent (\<lambda>m a b. QRectF 1 2 3 4) (unloadTemplateFileImpl loaded_template)
     = QRectF 0 0 0 0 \<and>
   template_map example_template = None \<and>
   loadTemplateFileImpl makeImporter_none False (idle_world, example_template)
     = Inr (False, \<lparr>locked_maps = [], importer_calls = [MakeImporter ''a.omap'']\<rparr>,
            example_template) \<and>
   getTemplateExtent (\<lambda>m a b. QRectF 1 2 3 4) example_template = QRectF 0 0 0 0"
proof -
  have loaded: "template_map loaded_template = Some example_map"
    by (simp add: loaded_template_def)
  have unloaded: "template_map example_template = None"
    by (simp add: example_template_def)
  have run: "loadTemplateFileImpl makeImporter_none False (idle_world, example_template)
     = Inr (False, \<lparr>locked_maps = [], importer_calls = [MakeImporter ''a.omap'']\<rparr>,
            example_template)"
    unfolding load_unlocked [OF example_unlocked]
    by (simp add: import_result_def run_import_def idle_world_def example_template_def
        makeImporter_none_def)
  show ?thesis
    using getTemplateExtent_cases [of loaded_template "\<lambda>m a b. QRectF 1 2 3 4"]
      getTemplateExtent_cases [of example_template "\<lambda>m a b. QRectF 1 2 3 4"
        makeImporter_none False]
      loaded unloaded run
    by (simp add: QRectF_default_def)
qed

subsection \<open>The scaling of drawTemplate\<close>

text \<open>
  C8. With a loaded map \<^verbatim>\<open>drawTemplate\<close> hands a configuration to \<^verbatim>\<open>Map::draw\<close>.
  On screen its scaling is \<^verbatim>\<open>Util::mmToPixelPhysical(scale)\<close>. Otherwise the resolution
  is the physical one of the paint device, or the logical one when the physical one is 0; a
  positive resolution multiplies the scale by \<open>dpi / 25.4\<close>, and a resolution that is 0 or
  negative leaves the scale as it was passed.
\<close>

theorem drawTemplate_scaling:
  assumes "template_map t = Some m"
  shows "\<exists>painter' config.
     drawTemplate env t painter clip_rect scale on_screen opac = Inr (painter', config) \<and>
     options_screen config = on_screen \<and>
     (on_screen \<longrightarrow> scaling config = mmToPixelPhysical env scale) \<and>
     (\<not> on_screen \<and> physicalDpiX painter > 0 \<longrightarrow>
        scaling config = scale * (real_of_int (physicalDpiX painter) / 25.4)) \<and>
     (\<not> on_screen \<and> physicalDpiX painter = 0 \<and> logicalDpiX painter > 0 \<longrightarrow>
        scaling config = scale * (real_of_int (logicalDpiX painter) / 25.4)) \<and>
     (\<not> on_screen \<and> physicalDpiX painter = 0 \<and> logicalDpiX painter \<le> 0 \<longrightarrow>
        scaling config = scale) \<and>
     (\<not> on_screen \<and> physicalDpiX painter < 0 \<longrightarrow> scaling config = scale)"
  using assms by (simp add: drawTemplate_def Let_def)

theorem drawTemplate_scaling_witness:
  "template_map loaded_template = Some example_map \<and>
   (\<exists>painter' config.
      drawTemplate example_env loaded_template (example_painter 0 0) (QRectF 0 0 10 10) 2 True 1
        = Inr (painter', config) \<and> scaling config = 8) \<and>
   (\<exists>painter' config.
      drawTemplate example_env loaded_template (example_painter 0 254) (QRectF 0 0 10 10) 2 False 1
        = Inr (painter', config) \<and> scaling config = 20) \<and>
   (\<exists>painter' config.
      drawTemplate example_env loaded_template (example_painter 0 0) (QRectF 0 0 10 10) 2 False 1
        = Inr (painter', config) \<and> scaling config = 2)"
proof -
  have loaded: "template_map loaded_template = Some example_map"
    by (simp add: loaded_template_def)
  show ?thesis
    using drawTemplate_scaling [OF loaded, of example_env "example_painter 0 0"
        "QRectF 0 0 10 10" 2 True 1]
      drawTemplate_scaling [OF loaded, of example_env "example_painter 0 254"
        "QRectF 0 0 10 10" 2 False 1]
      drawTemplate_scaling [OF loaded, of example_env "example_painter 0 0"
        "QRectF 0 0 10 10" 2 False 1]
      loaded
    by (auto simp: example_env_def example_painter_def)
qed

subsection \<open>Lemmas on the pass points and the fit\<close>

lemma passpoints_of_eq:
  "passpoints_of f g =
     ([\<lparr>src_coords = getMapRefPoint g, dest_coords = fst (f g (getMapRefPoint g))\<rparr>,
       \<lparr>src_coords = coord_add (getMapRefPoint g) (128, 0),
        dest_coords = fst (f g (coord_add (getMapRefPoint g) (128, 0)))\<rparr>,
       \<lparr>src_coords = coord_add (getMapRefPoint g) (0, 128),
        dest_coords = fst (f g (coord_add (getMapRefPoint g) (0, 128)))\<rparr>],
      snd (f g (getMapRefPoint g)),
      snd (f g (coord_add (getMapRefPoint g) (128, 0))),
      snd (f g (coord_add (getMapRefPoint g) (0, 128))))"
  by (simp add: passpoints_of_def Let_def split: prod.splits)

text \<open>Every pair \<open>(a, b)\<close> is a scale \<open>s \<ge> 0\<close> times a rotation.\<close>

lemma polar_nonneg: "\<exists>s phi. 0 \<le> s \<and> (a::real) = s * cos phi \<and> b = s * sin phi"
proof -
  obtain r phi where rp: "a = r * cos phi" "b = r * sin phi"
    using polar_Ex [of a b] by blast
  show ?thesis
  proof (cases "0 \<le> r")
    case True
    then show ?thesis
      using rp by blast
  next
    case False
    then have "0 \<le> - r" "a = - r * cos (phi + pi)" "b = - r * sin (phi + pi)"
      using rp by simp_all
    then show ?thesis
      by blast
  qed
qed

text \<open>On the three sources of \<^verbatim>\<open>calculateTransformation\<close> the modelled fit succeeds: the
  sources never coincide.\<close>

lemma estimate_three:
  "\<exists>a b dx dy. estimateNonIsometricSimilarityTransform
     [\<lparr>src_coords = (x, y), dest_coords = d0\<rparr>,
      \<lparr>src_coords = (x + 128, y), dest_coords = d1\<rparr>,
      \<lparr>src_coords = (x, y + 128), dest_coords = d2\<rparr>]
    = Some \<lparr>m11 = a, m12 = b, m13 = 0, m21 = - b, m22 = a, m23 = 0,
            m31 = dx, m32 = dy, m33 = 1\<rparr>"
proof -
  have "(x - (x + (x + 128) + x) / 3)\<^sup>2 + (y - (y + y + (y + 128)) / 3)\<^sup>2
      + ((x + 128 - (x + (x + 128) + x) / 3)\<^sup>2 + (y - (y + y + (y + 128)) / 3)\<^sup>2)
      + ((x - (x + (x + 128) + x) / 3)\<^sup>2 + (y + 128 - (y + y + (y + 128)) / 3)\<^sup>2)
      = 65536 / 3"
    by (simp add: power2_eq_square field_simps)
  then show ?thesis
    by (simp add: estimateNonIsometricSimilarityTransform_def centroid_def Let_def add.assoc)
qed




lemma sum_list_residual:
  fixes X Y U V :: "'a \<Rightarrow> real"
  shows "(\<Sum>p\<leftarrow>ps. (a * X p - b * Y p - U p + s)\<^sup>2 + (b * X p + a * Y p - V p + t)\<^sup>2)
     = (a\<^sup>2 + b\<^sup>2) * (\<Sum>p\<leftarrow>ps. (X p)\<^sup>2 + (Y p)\<^sup>2)
       - 2 * a * (\<Sum>p\<leftarrow>ps. X p * U p + Y p * V p)
       - 2 * b * (\<Sum>p\<leftarrow>ps. X p * V p - Y p * U p)
       + (\<Sum>p\<leftarrow>ps. (U p)\<^sup>2 + (V p)\<^sup>2)
       + real (length ps) * (s\<^sup>2 + t\<^sup>2)
       + 2 * s * (a * (\<Sum>p\<leftarrow>ps. X p) - b * (\<Sum>p\<leftarrow>ps. Y p) - (\<Sum>p\<leftarrow>ps. U p))
       + 2 * t * (b * (\<Sum>p\<leftarrow>ps. X p) + a * (\<Sum>p\<leftarrow>ps. Y p) - (\<Sum>p\<leftarrow>ps. V p))"
  by (induction ps) (simp_all add: power2_eq_square algebra_simps)

lemma sum_list_centered:
  fixes f :: "'a \<Rightarrow> real"
  assumes "ps \<noteq> []"
  shows "(\<Sum>p\<leftarrow>ps. f p - (\<Sum>p\<leftarrow>ps. f p) / real (length ps)) = 0"
proof -
  have "(\<Sum>p\<leftarrow>ps. f p - c) = (\<Sum>p\<leftarrow>ps. f p) - real (length ps) * c" for c
    by (induction ps) (simp_all add: algebra_simps)
  then show ?thesis using assms by simp
qed

lemma fit_error_centered:
  fixes a b dx dy :: real
  assumes ne: "pps \<noteq> []"
  defines "cx \<equiv> fst (centroid (map src_coords pps))"
      and "cy \<equiv> snd (centroid (map src_coords pps))"
      and "ux \<equiv> fst (centroid (map dest_coords pps))"
      and "uy \<equiv> snd (centroid (map dest_coords pps))"
  shows "fit_error \<lparr>m11 = a, m12 = b, m13 = 0, m21 = - b, m22 = a, m23 = 0,
                    m31 = dx, m32 = dy, m33 = 1\<rparr> pps
     = (a\<^sup>2 + b\<^sup>2) * (\<Sum>p\<leftarrow>pps. (fst (src_coords p) - cx)\<^sup>2 + (snd (src_coords p) - cy)\<^sup>2)
       - 2 * a * (\<Sum>p\<leftarrow>pps. (fst (src_coords p) - cx) * (fst (dest_coords p) - ux)
                           + (snd (src_coords p) - cy) * (snd (dest_coords p) - uy))
       - 2 * b * (\<Sum>p\<leftarrow>pps. (fst (src_coords p) - cx) * (snd (dest_coords p) - uy)
                           - (snd (src_coords p) - cy) * (fst (dest_coords p) - ux))
       + (\<Sum>p\<leftarrow>pps. (fst (dest_coords p) - ux)\<^sup>2 + (snd (dest_coords p) - uy)\<^sup>2)
       + real (length pps) * ((a * cx - b * cy + dx - ux)\<^sup>2 + (b * cx + a * cy + dy - uy)\<^sup>2)"
proof -
  have zero: "(\<Sum>p\<leftarrow>pps. fst (src_coords p) - cx) = 0" "(\<Sum>p\<leftarrow>pps. snd (src_coords p) - cy) = 0"
    "(\<Sum>p\<leftarrow>pps. fst (dest_coords p) - ux) = 0" "(\<Sum>p\<leftarrow>pps. snd (dest_coords p) - uy) = 0"
    using sum_list_centered [OF ne, of "\<lambda>p. fst (src_coords p)"]
      sum_list_centered [OF ne, of "\<lambda>p. snd (src_coords p)"]
      sum_list_centered [OF ne, of "\<lambda>p. fst (dest_coords p)"]
      sum_list_centered [OF ne, of "\<lambda>p. snd (dest_coords p)"]
    by (simp_all add: cx_def cy_def ux_def uy_def centroid_def comp_def)
  have "fit_error \<lparr>m11 = a, m12 = b, m13 = 0, m21 = - b, m22 = a, m23 = 0,
                    m31 = dx, m32 = dy, m33 = 1\<rparr> pps
      = (\<Sum>p\<leftarrow>pps. (a * (fst (src_coords p) - cx) - b * (snd (src_coords p) - cy)
                     - (fst (dest_coords p) - ux) + (a * cx - b * cy + dx - ux))\<^sup>2
                 + (b * (fst (src_coords p) - cx) + a * (snd (src_coords p) - cy)
                     - (snd (dest_coords p) - uy) + (b * cx + a * cy + dy - uy))\<^sup>2)"
    unfolding fit_error_def
    by (intro arg_cong [where f = sum_list] map_cong refl arg_cong2 [where f = "(+)"]
        arg_cong [where f = "\<lambda>z. z\<^sup>2"])
      (simp_all add: qt_map_def algebra_simps)
  also have "\<dots> = (a\<^sup>2 + b\<^sup>2) * (\<Sum>p\<leftarrow>pps. (fst (src_coords p) - cx)\<^sup>2 + (snd (src_coords p) - cy)\<^sup>2)
       - 2 * a * (\<Sum>p\<leftarrow>pps. (fst (src_coords p) - cx) * (fst (dest_coords p) - ux)
                           + (snd (src_coords p) - cy) * (snd (dest_coords p) - uy))
       - 2 * b * (\<Sum>p\<leftarrow>pps. (fst (src_coords p) - cx) * (snd (dest_coords p) - uy)
                           - (snd (src_coords p) - cy) * (fst (dest_coords p) - ux))
       + (\<Sum>p\<leftarrow>pps. (fst (dest_coords p) - ux)\<^sup>2 + (snd (dest_coords p) - uy)\<^sup>2)
       + real (length pps) * ((a * cx - b * cy + dx - ux)\<^sup>2 + (b * cx + a * cy + dy - uy)\<^sup>2)"
    unfolding sum_list_residual zero by simp
  finally show ?thesis .
qed

text \<open>The modelled fit is least-squares: no similarity has a smaller error on the pairs.\<close>

lemma estimate_least_squares:
  fixes a b dx dy :: real
  assumes est: "estimateNonIsometricSimilarityTransform pps = Some q"
  shows "fit_error q pps
       \<le> fit_error \<lparr>m11 = a, m12 = b, m13 = 0, m21 = - b, m22 = a, m23 = 0,
                     m31 = dx, m32 = dy, m33 = 1\<rparr> pps"
proof -
  define cx where "cx = fst (centroid (map src_coords pps))"
  define cy where "cy = snd (centroid (map src_coords pps))"
  define ux where "ux = fst (centroid (map dest_coords pps))"
  define uy where "uy = snd (centroid (map dest_coords pps))"
  define D where "D = (\<Sum>p\<leftarrow>pps. (fst (src_coords p) - cx)\<^sup>2 + (snd (src_coords p) - cy)\<^sup>2)"
  define P where "P = (\<Sum>p\<leftarrow>pps. (fst (src_coords p) - cx) * (fst (dest_coords p) - ux)
                           + (snd (src_coords p) - cy) * (snd (dest_coords p) - uy))"
  define Q where "Q = (\<Sum>p\<leftarrow>pps. (fst (src_coords p) - cx) * (snd (dest_coords p) - uy)
                           - (snd (src_coords p) - cy) * (fst (dest_coords p) - ux))"
  define E where "E = (\<Sum>p\<leftarrow>pps. (fst (dest_coords p) - ux)\<^sup>2 + (snd (dest_coords p) - uy)\<^sup>2)"
  define n where "n = real (length pps)"
  have ne: "pps \<noteq> []" and D0: "D \<noteq> 0"
    and q: "q = \<lparr>m11 = P / D, m12 = Q / D, m13 = 0, m21 = - (Q / D), m22 = P / D, m23 = 0,
                 m31 = ux - (P / D * cx - Q / D * cy), m32 = uy - (Q / D * cx + P / D * cy),
                 m33 = 1\<rparr>"
    using est
    by (auto simp: estimateNonIsometricSimilarityTransform_def Let_def D_def P_def Q_def
        cx_def cy_def ux_def uy_def split: if_splits)
  have Dpos: "0 \<le> D"
    unfolding D_def by (intro sum_list_nonneg) auto
  have n0: "0 \<le> n"
    by (simp add: n_def)
  have cost: "fit_error \<lparr>m11 = a', m12 = b', m13 = 0, m21 = - b', m22 = a', m23 = 0,
                    m31 = dx', m32 = dy', m33 = 1\<rparr> pps
      = (a'\<^sup>2 + b'\<^sup>2) * D - 2 * a' * P - 2 * b' * Q + E
        + n * ((a' * cx - b' * cy + dx' - ux)\<^sup>2 + (b' * cx + a' * cy + dy' - uy)\<^sup>2)"
    for a' b' dx' dy' :: real
    using fit_error_centered [OF ne, of a' b' dx' dy']
    by (simp add: D_def P_def Q_def E_def n_def cx_def cy_def ux_def uy_def)
  define a0 where "a0 = P / D"
  define b0 where "b0 = Q / D"
  have PQ: "P = a0 * D" "Q = b0 * D"
    using D0 by (simp_all add: a0_def b0_def)
  have best: "fit_error q pps = (a0\<^sup>2 + b0\<^sup>2) * D - 2 * a0 * P - 2 * b0 * Q + E"
    unfolding q cost a0_def b0_def by simp
  have diff: "(a\<^sup>2 + b\<^sup>2) * D - 2 * a * (a0 * D) - 2 * b * (b0 * D)
          - ((a0\<^sup>2 + b0\<^sup>2) * D - 2 * a0 * (a0 * D) - 2 * b0 * (b0 * D))
        = D * ((a - a0)\<^sup>2 + (b - b0)\<^sup>2)"
    by (simp add: power2_eq_square algebra_simps)
  have "0 \<le> D * ((a - a0)\<^sup>2 + (b - b0)\<^sup>2)"
    using Dpos by simp
  moreover have "0 \<le> n * ((a * cx - b * cy + dx - ux)\<^sup>2 + (b * cx + a * cy + dy - uy)\<^sup>2)"
    using n0 by simp
  ultimately have "(a0\<^sup>2 + b0\<^sup>2) * D - 2 * a0 * (a0 * D) - 2 * b0 * (b0 * D) + E
      \<le> (a\<^sup>2 + b\<^sup>2) * D - 2 * a * (a0 * D) - 2 * b * (b0 * D) + E
        + n * ((a * cx - b * cy + dx - ux)\<^sup>2 + (b * cx + a * cy + dy - uy)\<^sup>2)"
    using diff by linarith
  then show ?thesis
    unfolding best cost using PQ by simp
qed

lemma example_loaded: "template_map loaded_template = Some example_map"
  by (simp add: loaded_template_def)

subsection \<open>calculateTransformation\<close>

text \<open>
  C3. With a loaded map, \<^verbatim>\<open>calculateTransformation\<close> builds exactly three pass points:
  the sources are the reference point of the template map's georeferencing, that point plus
  (128, 0) and that point plus (0, 128), and each destination is what the host map's
  \<^verbatim>\<open>toMapCoordF\<close> returns for the source. The fit is run on these three pairs. With the fit
  as the spec describes it, the result is the matrix of a similarity, a uniform scale
  \<open>s \<ge> 0\<close> and a rotation by \<open>phi\<close> followed by a translation, with no shear, and no
  similarity is closer to the three pairs in the sum of squared distances; when the three
  conversions succeeded, the transform stored is \<^verbatim>\<open>fromQTransform\<close> of that matrix, and
  otherwise the template is unchanged. The code does not test whether either georeferencing
  is valid, so the statement holds in particular when both are.
\<close>

theorem calculateTransformation_passpoints_fit:
  assumes "template_map t = Some m"
  shows "\<exists>s phi dx dy.
     fst (passpoints_of toMapCoordF (getGeoreferencing m)) =
       [\<lparr>src_coords = getMapRefPoint (getGeoreferencing m),
         dest_coords =
           fst (toMapCoordF (getGeoreferencing m) (getMapRefPoint (getGeoreferencing m)))\<rparr>,
        \<lparr>src_coords = coord_add (getMapRefPoint (getGeoreferencing m)) (128, 0),
         dest_coords = fst (toMapCoordF (getGeoreferencing m)
                              (coord_add (getMapRefPoint (getGeoreferencing m)) (128, 0)))\<rparr>,
        \<lparr>src_coords = coord_add (getMapRefPoint (getGeoreferencing m)) (0, 128),
         dest_coords = fst (toMapCoordF (getGeoreferencing m)
                              (coord_add (getMapRefPoint (getGeoreferencing m)) (0, 128)))\<rparr>] \<and>
     length (fst (passpoints_of toMapCoordF (getGeoreferencing m))) = 3 \<and>
     0 \<le> s \<and>
     estimateNonIsometricSimilarityTransform
         (fst (passpoints_of toMapCoordF (getGeoreferencing m)))
       = Some (similarity s phi dx dy) \<and>
     (\<forall>s' phi' dx' dy'.
        fit_error (similarity s phi dx dy) (fst (passpoints_of toMapCoordF (getGeoreferencing m)))
          \<le> fit_error (similarity s' phi' dx' dy')
               (fst (passpoints_of toMapCoordF (getGeoreferencing m)))) \<and>
     calculateTransformation toMapCoordF estimateNonIsometricSimilarityTransform fromQTransform
         updateTransformationMatrices t =
       (if snd (toMapCoordF (getGeoreferencing m) (getMapRefPoint (getGeoreferencing m))) \<and>
           snd (toMapCoordF (getGeoreferencing m)
                  (coord_add (getMapRefPoint (getGeoreferencing m)) (128, 0))) \<and>
           snd (toMapCoordF (getGeoreferencing m)
                  (coord_add (getMapRefPoint (getGeoreferencing m)) (0, 128)))
        then Inr (updateTransformationMatrices
                    (t\<lparr>transform := fromQTransform (similarity s phi dx dy)\<rparr>))
        else Inr t)"
proof -
  let ?g = "getGeoreferencing m"
  obtain x y where o: "getMapRefPoint ?g = (x, y)"
    by (cases "getMapRefPoint ?g")
  have pps: "fst (passpoints_of toMapCoordF ?g) =
       [\<lparr>src_coords = (x, y), dest_coords = fst (toMapCoordF ?g (x, y))\<rparr>,
        \<lparr>src_coords = (x + 128, y), dest_coords = fst (toMapCoordF ?g (x + 128, y))\<rparr>,
        \<lparr>src_coords = (x, y + 128), dest_coords = fst (toMapCoordF ?g (x, y + 128))\<rparr>]"
    by (simp add: passpoints_of_eq o coord_add_def)
  obtain a b dx dy where est:
    "estimateNonIsometricSimilarityTransform (fst (passpoints_of toMapCoordF ?g))
       = Some \<lparr>m11 = a, m12 = b, m13 = 0, m21 = - b, m22 = a, m23 = 0,
               m31 = dx, m32 = dy, m33 = 1\<rparr>"
    unfolding pps using estimate_three by blast
  obtain s phi where sp: "0 \<le> s" "a = s * cos phi" "b = s * sin phi"
    using polar_nonneg [of a b] by blast
  have est': "estimateNonIsometricSimilarityTransform (fst (passpoints_of toMapCoordF ?g))
       = Some (similarity s phi dx dy)"
    using est sp by (simp add: similarity_def)
  have "calculateTransformation toMapCoordF estimateNonIsometricSimilarityTransform fromQTransform
         updateTransformationMatrices t =
       (if snd (toMapCoordF ?g (getMapRefPoint ?g)) \<and>
           snd (toMapCoordF ?g (coord_add (getMapRefPoint ?g) (128, 0))) \<and>
           snd (toMapCoordF ?g (coord_add (getMapRefPoint ?g) (0, 128)))
        then Inr (updateTransformationMatrices
                    (t\<lparr>transform := fromQTransform (similarity s phi dx dy)\<rparr>))
        else Inr t)"
    using est' assms
    by (simp add: calculateTransformation_def passpoints_of_eq Let_def)
  moreover have "fit_error (similarity s phi dx dy) (fst (passpoints_of toMapCoordF ?g))
      \<le> fit_error (similarity s' phi' dx' dy') (fst (passpoints_of toMapCoordF ?g))"
    for s' phi' dx' dy'
    using estimate_least_squares [OF est', of "s' * cos phi'" "s' * sin phi'" dx' dy']
    by (simp add: similarity_def)
  ultimately show ?thesis
    using est' sp(1) by (intro exI [of _ s] exI [of _ phi] exI [of _ dx] exI [of _ dy])
      (simp add: passpoints_of_eq)
qed

theorem calculateTransformation_passpoints_fit_witness:
  "template_map loaded_template = Some example_map \<and>
   fst (passpoints_of shift_toMapCoordF (getGeoreferencing example_map)) =
     [\<lparr>src_coords = (10, 20), dest_coords = (1010, 2020)\<rparr>,
      \<lparr>src_coords = (138, 20), dest_coords = (1138, 2020)\<rparr>,
      \<lparr>src_coords = (10, 148), dest_coords = (1010, 2148)\<rparr>] \<and>
   calculateTransformation shift_toMapCoordF estimateNonIsometricSimilarityTransform
       (\<lambda>q. q) (\<lambda>t. t) loaded_template
     = Inr (loaded_template
              \<lparr>transform := \<lparr>m11 = 1, m12 = 0, m13 = 0, m21 = 0, m22 = 1, m23 = 0,
                             m31 = 1000, m32 = 2000, m33 = 1\<rparr>\<rparr>)"
proof -
  have pps: "fst (passpoints_of shift_toMapCoordF (getGeoreferencing example_map)) =
     [\<lparr>src_coords = (10, 20), dest_coords = (1010, 2020)\<rparr>,
      \<lparr>src_coords = (138, 20), dest_coords = (1138, 2020)\<rparr>,
      \<lparr>src_coords = (10, 148), dest_coords = (1010, 2148)\<rparr>]"
    by (simp add: passpoints_of_eq example_map_def shift_toMapCoordF_def coord_add_def)
  have est: "estimateNonIsometricSimilarityTransform
     [\<lparr>src_coords = (10, 20), dest_coords = (1010, 2020)\<rparr>,
      \<lparr>src_coords = (138, 20), dest_coords = (1138, 2020)\<rparr>,
      \<lparr>src_coords = (10, 148), dest_coords = (1010, 2148)\<rparr>]
     = Some \<lparr>m11 = 1, m12 = 0, m13 = 0, m21 = 0, m22 = 1, m23 = 0,
             m31 = 1000, m32 = 2000, m33 = 1\<rparr>"
    by (simp add: estimateNonIsometricSimilarityTransform_def centroid_def Let_def
        power2_eq_square)
  obtain s phi dx dy where fit:
    "estimateNonIsometricSimilarityTransform
         (fst (passpoints_of shift_toMapCoordF (getGeoreferencing example_map)))
       = Some (similarity s phi dx dy)"
    "calculateTransformation shift_toMapCoordF estimateNonIsometricSimilarityTransform
         (\<lambda>q. q) (\<lambda>t. t) loaded_template =
       (if snd (shift_toMapCoordF (getGeoreferencing example_map)
                  (getMapRefPoint (getGeoreferencing example_map))) \<and>
           snd (shift_toMapCoordF (getGeoreferencing example_map)
                  (coord_add (getMapRefPoint (getGeoreferencing example_map)) (128, 0))) \<and>
           snd (shift_toMapCoordF (getGeoreferencing example_map)
                  (coord_add (getMapRefPoint (getGeoreferencing example_map)) (0, 128)))
        then Inr (loaded_template\<lparr>transform := similarity s phi dx dy\<rparr>)
        else Inr loaded_template)"
    using calculateTransformation_passpoints_fit [OF example_loaded, of shift_toMapCoordF
        "\<lambda>q. q" "\<lambda>t. t"]
    by blast
  have "similarity s phi dx dy
      = \<lparr>m11 = 1, m12 = 0, m13 = 0, m21 = 0, m22 = 1, m23 = 0,
         m31 = 1000, m32 = 2000, m33 = 1\<rparr>"
    using fit(1) est by (simp add: pps)
  then show ?thesis
    using fit(2) pps example_loaded by (simp add: shift_toMapCoordF_def)
qed

text \<open>
  C4. With a loaded map, when one of the three conversions reports failure or the fit returns
  false, \<^verbatim>\<open>calculateTransformation\<close> returns and the template object, with its stored
  transform, is exactly as before the call. This holds for any fit and any conversion.
\<close>

theorem calculateTransformation_failure_keeps_state:
  assumes "template_map t = Some m"
      and "passpoints_of toMapCoordF (getGeoreferencing m) = (passpoints, ok0, ok1, ok2)"
      and "\<not> ok0 \<or> \<not> ok1 \<or> \<not> ok2 \<or> estimate passpoints = None"
  shows "calculateTransformation toMapCoordF estimate fromQTransform
           updateTransformationMatrices t = Inr t"
  using assms by (auto simp: calculateTransformation_def)

theorem calculateTransformation_failure_keeps_state_witness:
  "template_map loaded_template = Some example_map \<and>
   snd (partial_toMapCoordF (getGeoreferencing example_map) (138, 20)) = False \<and>
   calculateTransformation partial_toMapCoordF estimateNonIsometricSimilarityTransform
       (\<lambda>q. q) (\<lambda>t. t\<lparr>error_string := ''updated''\<rparr>) loaded_template
     = Inr loaded_template \<and>
   calculateTransformation shift_toMapCoordF (\<lambda>pps. None)
       (\<lambda>q. q) (\<lambda>t. t\<lparr>error_string := ''updated''\<rparr>) loaded_template
     = Inr loaded_template"
proof -
  have pps: "passpoints_of partial_toMapCoordF (getGeoreferencing example_map)
      = ([\<lparr>src_coords = (10, 20), dest_coords = (1010, 2020)\<rparr>,
          \<lparr>src_coords = (138, 20), dest_coords = (1138, 2020)\<rparr>,
          \<lparr>src_coords = (10, 148), dest_coords = (1010, 2148)\<rparr>], True, False, True)"
    by (simp add: passpoints_of_def example_map_def partial_toMapCoordF_def coord_add_def)
  have pps': "passpoints_of shift_toMapCoordF (getGeoreferencing example_map)
      = ([\<lparr>src_coords = (10, 20), dest_coords = (1010, 2020)\<rparr>,
          \<lparr>src_coords = (138, 20), dest_coords = (1138, 2020)\<rparr>,
          \<lparr>src_coords = (10, 148), dest_coords = (1010, 2148)\<rparr>], True, True, True)"
    by (simp add: passpoints_of_def example_map_def shift_toMapCoordF_def coord_add_def)
  show ?thesis
    using calculateTransformation_failure_keeps_state [OF example_loaded pps,
        of estimateNonIsometricSimilarityTransform "\<lambda>q. q"
          "\<lambda>t. t\<lparr>error_string := ''updated''\<rparr>"]
      calculateTransformation_failure_keeps_state [OF example_loaded pps',
        of "\<lambda>pps. None" "\<lambda>q. q" "\<lambda>t. t\<lparr>error_string := ''updated''\<rparr>"]
      example_loaded
    by (simp add: partial_toMapCoordF_def)
qed

subsection \<open>The image of the reference point\<close>





end
